theory Spec2Isabelle
  imports Complex_Main "HOL-Library.Sublist" "HOL-Library.Char_ord" "HOL-Library.List_Lexorder"
begin

section \<open>Python strings\<close>

text \<open>
  A Python \<open>str\<close> is a sequence of code points. It is modelled as a \<open>string\<close> in which
  every \<open>char\<close> stands for one code point, so the model covers the code points
  0 to 255 (ASCII and Latin-1); \<open>length\<close> is Python's \<open>len\<close>.
\<close>

definition lower_char :: "char \<Rightarrow> char" where
  \<comment> \<open>\<open>str.lower\<close> on one code point below 256: A-Z and the Latin-1 capitals
      (U+00C0 to U+00DE without the multiplication sign U+00D7) move up by 32.\<close>
  "lower_char c =
     (let n = (of_char c :: nat)
      in if (65 \<le> n \<and> n \<le> 90) \<or> (192 \<le> n \<and> n \<le> 222 \<and> n \<noteq> 215)
         then char_of (n + 32) else c)"

definition lower :: "string \<Rightarrow> string" where
  "lower s = map lower_char s"

definition replace :: "char \<Rightarrow> char \<Rightarrow> string \<Rightarrow> string" where
  \<comment> \<open>\<open>s.replace(old, new)\<close> where \<open>old\<close> and \<open>new\<close> are single characters\<close>
  "replace old new s = map (\<lambda>c. if c = old then new else c) s"

fun substr :: "string \<Rightarrow> string \<Rightarrow> bool" where
  \<comment> \<open>\<open>a in b\<close> on strings: \<open>a\<close> occurs in \<open>b\<close> as a contiguous run\<close>
  "substr a [] = (a = [])"
| "substr a (c # cs) = (prefix a (c # cs) \<or> substr a cs)"

definition is_space :: "char \<Rightarrow> bool" where
  \<comment> \<open>the code points below 256 that \<open>str.strip()\<close> and \<open>str.split()\<close> treat as whitespace:
      tab, line feed, vertical tab, form feed, carriage return, U+001C to U+001F, space,
      U+0085 and U+00A0\<close>
  "is_space c =
     (let n = (of_char c :: nat)
      in (9 \<le> n \<and> n \<le> 13) \<or> (28 \<le> n \<and> n \<le> 32) \<or> n = 133 \<or> n = 160)"

definition lstrip :: "string \<Rightarrow> string" where
  "lstrip s = dropWhile is_space s"

definition rstrip :: "string \<Rightarrow> string" where
  "rstrip s = rev (dropWhile is_space (rev s))"

definition strip :: "string \<Rightarrow> string" where
  "strip s = rstrip (lstrip s)"

section \<open>Model name resolution (qaihub\_download\_models.py)\<close>

definition DEFAULT_MODELS :: "string list" where
  "DEFAULT_MODELS = [''stable_diffusion_v2_1'', ''llama_v3_2_3b_instruct'']"

definition MODEL_ALIASES :: "(string \<times> string) list" where
  "MODEL_ALIASES =
    [(''stable-diffusion-v2.1'', ''stable_diffusion_v2_1''),
     (''stable_diffusion_v2.1'', ''stable_diffusion_v2_1''),
     (''sd-v2.1'', ''stable_diffusion_v2_1''),
     (''stable-diffusion-v1.5'', ''stable_diffusion_v1_5''),
     (''stable_diffusion_v1.5'', ''stable_diffusion_v1_5''),
     (''sd-v1.5'', ''stable_diffusion_v1_5''),
     (''llama-v3.2-3b-instruct'', ''llama_v3_2_3b_instruct''),
     (''llama-3.2-3b'', ''llama_v3_2_3b_instruct''),
     (''llama3.2-3b'', ''llama_v3_2_3b_instruct''),
     (''controlnet-canny'', ''controlnet_canny''),
     (''controlnet'', ''controlnet_canny'')]"

definition normalize :: "string \<Rightarrow> string" where
  \<comment> \<open>\<open>requested.lower().replace("-", "_").replace(".", "_")\<close>\<close>
  "normalize requested = replace (CHR ''.'') (CHR ''_'') (replace (CHR ''-'') (CHR ''_'') (lower requested))"

definition alias_key :: "string \<Rightarrow> string" where
  \<comment> \<open>\<open>requested.lower().replace("_", "-")\<close>\<close>
  "alias_key requested = replace (CHR ''_'') (CHR ''-'') (lower requested)"

definition alias_lookup :: "string \<Rightarrow> string list \<Rightarrow> string option" where
  \<comment> \<open>\<open>if key in MODEL_ALIASES: resolved = MODEL_ALIASES[key]; if resolved in available: return resolved\<close>;
      \<open>None\<close> when the step falls through\<close>
  "alias_lookup key available =
     (case map_of MODEL_ALIASES key of
        None \<Rightarrow> None
      | Some resolved \<Rightarrow> if resolved \<in> set available then Some resolved else None)"

definition fuzzy_match :: "string \<Rightarrow> string list \<Rightarrow> string option" where
  \<comment> \<open>\<open>for model in available: if normalized in model or model in normalized: return model\<close>\<close>
  "fuzzy_match normalized available =
     find (\<lambda>model. substr normalized model \<or> substr model normalized) available"

definition resolve_model_name :: "string \<Rightarrow> string list \<Rightarrow> string option" where
  "resolve_model_name requested available =
     (let normalized = normalize requested in
      if normalized \<in> set available then Some normalized
      else case alias_lookup (alias_key requested) available of
        Some resolved \<Rightarrow> Some resolved
      | None \<Rightarrow>
          (case alias_lookup normalized available of
             Some resolved \<Rightarrow> Some resolved
           | None \<Rightarrow> fuzzy_match normalized available))"

text \<open>
  The two other spellings of an alias-table key: its underscores written as hyphens, and
  its hyphens written as underscores (periods stay).
\<close>

definition hyphenated :: "string \<Rightarrow> string" where
  "hyphenated k = replace (CHR ''_'') (CHR ''-'') k"

definition underscored :: "string \<Rightarrow> string" where
  "underscored k = replace (CHR ''-'') (CHR ''_'') k"

section \<open>Subprocess outcomes\<close>

text \<open>
  What one \<open>subprocess.run(..., capture_output=True, text=True, timeout=...)\<close> call can do:
  return a completed process, or raise. The raising outcomes carry \<open>str(e)\<close>.
\<close>

datatype proc_outcome =
    Completed (returncode: int) (stdout: string) (stderr: string)
  | FileNotFoundError string
  | TimeoutExpired string
  | OtherException string

datatype 'a outcome = Returns 'a | Raises string

section \<open>Device selection (qaihub\_download\_models.py)\<close>

fun split_on :: "char \<Rightarrow> string \<Rightarrow> string list" where
  \<comment> \<open>\<open>s.split(sep)\<close> for a single-character separator: always at least one piece\<close>
  "split_on sep [] = [[]]"
| "split_on sep (c # cs) =
     (if c = sep then [] # split_on sep cs
      else (case split_on sep cs of
              [] \<Rightarrow> [[c]]
            | w # ws \<Rightarrow> (c # w) # ws))"

fun split_ws :: "string \<Rightarrow> string list" where
  \<comment> \<open>\<open>s.split()\<close>: the maximal runs of non-whitespace characters\<close>
  "split_ws [] = []"
| "split_ws (c # cs) =
     (if is_space c then split_ws cs
      else (case cs of
              [] \<Rightarrow> [[c]]
            | d # _ \<Rightarrow>
                if is_space d then [c] # split_ws cs
                else (case split_ws cs of
                        [] \<Rightarrow> [[c]]
                      | w # ws \<Rightarrow> (c # w) # ws)))"

definition match_brand :: "string \<Rightarrow> string \<Rightarrow> string option" where
  \<comment> \<open>one alternative \<open>Brand[^\|]+\<close> of the pattern, matched at the start of \<open>s\<close>:
      the brand, then the longest run of characters other than the bar, which must not be empty\<close>
  "match_brand brand s =
     (if prefix brand s
      then (let run = takeWhile (\<lambda>c. c \<noteq> CHR ''|'') (drop (length brand) s)
            in if run = [] then None else Some (brand @ run))
      else None)"

definition match_here :: "string \<Rightarrow> string option" where
  \<comment> \<open>\<open>(Snapdragon[^\|]+|Samsung[^\|]+|Google[^\|]+)\<close> at the start of \<open>s\<close>, alternatives in order\<close>
  "match_here s =
     (case match_brand ''Snapdragon'' s of
        Some m \<Rightarrow> Some m
      | None \<Rightarrow>
          (case match_brand ''Samsung'' s of
             Some m \<Rightarrow> Some m
           | None \<Rightarrow> match_brand ''Google'' s))"

fun re_search :: "string \<Rightarrow> string option" where
  \<comment> \<open>\<open>re.search\<close> of that pattern: the match at the leftmost position that has one; group 1\<close>
  "re_search [] = match_here []"
| "re_search (c # cs) =
     (case match_here (c # cs) of
        Some m \<Rightarrow> Some m
      | None \<Rightarrow> re_search cs)"

definition parse_device_line :: "string \<Rightarrow> (string \<times> string) option" where
  \<comment> \<open>the body of the parsing loop for one line; \<open>None\<close> when the line adds no device\<close>
  "parse_device_line raw =
     (let line = strip raw in
      if line = [] \<or> prefix ''-'' line \<or> prefix ''Device'' line then None
      else (case split_ws line of
              [] \<Rightarrow> None
            | part # _ \<Rightarrow>
                (let device_name =
                   (if substr ''Snapdragon'' line \<or> substr ''Galaxy'' line \<or> substr ''Pixel'' line
                    then (case re_search line of
                            Some m \<Rightarrow> strip m
                          | None \<Rightarrow> part)
                    else part)
                 in Some (device_name, line))))"

definition parse_devices :: "string \<Rightarrow> (string \<times> string) list" where
  "parse_devices out = List.map_filter parse_device_line (split_on (CHR 0x0A) (strip out))"

definition auto_select_device :: "proc_outcome \<Rightarrow> string \<times> string" where
  \<comment> \<open>the argument is the outcome of \<open>qai-hub list-devices\<close>\<close>
  "auto_select_device listing =
     (case listing of
        Completed rc out err \<Rightarrow>
          if rc \<noteq> 0 then ('''', ''qai-hub list-devices failed'')
          else
            (let devices = parse_devices out in
             case devices of
               [] \<Rightarrow> ('''', ''No devices found'')
             | first # _ \<Rightarrow>
                 (case find (\<lambda>(device_name, line).
                              substr ''Snapdragon X Elite'' line \<and> substr ''Windows'' (lower line)) devices of
                    Some (device_name, line) \<Rightarrow> (device_name, ''Snapdragon X Elite + Windows (preferred)'')
                  | None \<Rightarrow>
                 (case find (\<lambda>(device_name, line). substr ''Snapdragon X Elite'' line) devices of
                    Some (device_name, line) \<Rightarrow> (device_name, ''Snapdragon X Elite'')
                  | None \<Rightarrow>
                 (case find (\<lambda>(device_name, line).
                              substr ''Snapdragon'' line \<and> substr ''Windows'' (lower line)) devices of
                    Some (device_name, line) \<Rightarrow> (device_name, ''Windows Snapdragon device'')
                  | None \<Rightarrow>
                      (fst first, ''First available device (no Snapdragon X Elite found)'')))))
      | FileNotFoundError e \<Rightarrow> ('''', ''Error selecting device: '' @ e)
      | TimeoutExpired e \<Rightarrow> ('''', ''Error selecting device: '' @ e)
      | OtherException e \<Rightarrow> ('''', ''Error selecting device: '' @ e))"

definition validate_qaihub_configured :: "proc_outcome \<Rightarrow> bool" where
  "validate_qaihub_configured listing =
     (case listing of
        Completed rc out err \<Rightarrow>
          if rc \<noteq> 0 then False
          else if strip out = [] then False
          else True
      | FileNotFoundError e \<Rightarrow> False
      | TimeoutExpired e \<Rightarrow> False
      | OtherException e \<Rightarrow> False)"

section \<open>Catalog discovery (qaihub\_download\_models.py)\<close>

text \<open>
  \<open>discover_available_models\<close> walks the packages of \<open>qai_hub_models.models\<close>. What it
  finds there is given by the environment: the import may fail, the walk may raise, or it
  yields one entry per module, with what the two \<open>os.path.exists\<close> probes of that module see.
\<close>

datatype probe =
    HasExport \<comment> \<open>\<open>export.py\<close> exists\<close>
  | HasInit \<comment> \<open>no \<open>export.py\<close>, but \<open>__init__.py\<close> exists\<close>
  | HasNeither
  | ProbeRaised \<comment> \<open>the probe raised; the inner handler passes\<close>

record module_entry =
  modname :: string
  ispkg :: bool
  probed :: probe

datatype discovery =
    ImportError
  | WalkRaised string
  | Modules "module_entry list"

definition keeps_module :: "module_entry \<Rightarrow> bool" where
  "keeps_module m = (ispkg m \<and> (probed m = HasExport \<or> probed m = HasInit))"

definition discover_available_models :: "discovery \<Rightarrow> string list" where
  "discover_available_models d =
     (case d of
        Modules entries \<Rightarrow> sort (map modname (filter keeps_module entries))
      | ImportError \<Rightarrow> []
      | WalkRaised e \<Rightarrow> [])"

section \<open>Export driver (qaihub\_download\_models.py)\<close>

record ExportResult =
  success :: bool
  requested_name :: string
  resolved_name :: string
  device :: string
  output_path :: string
  duration_seconds :: real
  error_msg :: string

text \<open>
  The environment of one \<open>export_model\<close> call. \<open>clock k\<close> is the value of the
  \<open>k\<close>-th \<open>time.time()\<close> call (0 is \<open>start_time\<close>); \<open>time.time()\<close> is the system's
  wall clock, which Python documents may be set back between two calls.
  \<open>dir_nonempty d\<close> is the truth value of \<open>os.path.exists(d) and os.listdir(d)\<close>.
  \<open>makedirs\<close> and \<open>copytree\<close> give \<open>None\<close> when the call returns and \<open>Some (str(e))\<close>
  when it raises. \<open>os.getcwd()\<close> is taken to return.
\<close>

record export_world =
  clock :: "nat \<Rightarrow> real"
  getcwd :: string
  makedirs :: "string \<Rightarrow> string option"
  run :: "string list \<Rightarrow> int \<Rightarrow> proc_outcome"
  dir_nonempty :: "string \<Rightarrow> bool outcome"
  copytree :: "string \<Rightarrow> string \<Rightarrow> string option"

definition path_join :: "string \<Rightarrow> string \<Rightarrow> string" where
  \<comment> \<open>\<open>os.path.join(a, b)\<close> of two components, as \<open>posixpath\<close> computes it\<close>
  "path_join a b =
     (if prefix ''/'' b then b
      else if a = [] \<or> suffix ''/'' a then a @ b
      else a @ ''/'' @ b)"

function str_digits :: "int \<Rightarrow> string" where
  \<comment> \<open>the decimal digits of a non-negative integer\<close>
  "str_digits i =
     (if i < 10 then [''0123456789'' ! nat i]
      else str_digits (i div 10) @ [''0123456789'' ! nat (i mod 10)])"
  by pat_completeness auto
termination
  by (relation "measure nat") auto

declare str_digits.simps [simp del]

definition str_int :: "int \<Rightarrow> string" where
  \<comment> \<open>\<open>str(i)\<close>, which is also how an f-string formats an int\<close>
  "str_int i = (if i < 0 then ''-'' @ str_digits (- i) else str_digits i)"

definition export_module :: "string \<Rightarrow> string" where
  "export_module model_name = ''qai_hub_models.models.'' @ model_name @ ''.export''"

definition detect_output_arg_style :: "export_world \<Rightarrow> string \<Rightarrow> string" where
  "detect_output_arg_style w model_name =
     (case run w [''python'', ''-m'', export_module model_name, ''--help''] 30 of
        Completed rc out err \<Rightarrow>
          (let help_text = out @ err in
           if substr ''--output-dir'' help_text then ''--output-dir''
           else if substr ''--output_dir'' help_text then ''--output_dir''
           else ''--output-dir'')
      | FileNotFoundError e \<Rightarrow> ''--output-dir''
      | TimeoutExpired e \<Rightarrow> ''--output-dir''
      | OtherException e \<Rightarrow> ''--output-dir'')"

definition export_command :: "export_world \<Rightarrow> string \<Rightarrow> string \<Rightarrow> string \<Rightarrow> string \<Rightarrow> string list" where
  \<comment> \<open>\<open>cmd_with_output\<close>\<close>
  "export_command w model_name dev output_base target_runtime =
     [''python'', ''-m'', export_module model_name,
      ''--device'', dev,
      ''--target-runtime'', target_runtime]
     @ [detect_output_arg_style w model_name, path_join output_base model_name]"

fun probe_fallbacks :: "export_world \<Rightarrow> string list \<Rightarrow> string \<Rightarrow> bool outcome" where
  \<comment> \<open>the loop over \<open>possible_dirs\<close>: \<open>Returns True\<close> when one was copied, \<open>Returns False\<close>
      when none was found non-empty, \<open>Raises\<close> when a probe or the copy raised\<close>
  "probe_fallbacks w [] output_dir = Returns False"
| "probe_fallbacks w (pdir # pdirs) output_dir =
     (case dir_nonempty w pdir of
        Raises e \<Rightarrow> Raises e
      | Returns found \<Rightarrow>
          if found
          then (case copytree w pdir output_dir of
                  Some e \<Rightarrow> Raises e
                | None \<Rightarrow> Returns True)
          else probe_fallbacks w pdirs output_dir)"

definition truncate_error :: "string \<Rightarrow> string" where
  \<comment> \<open>\<open>if len(error_msg) > 500: error_msg = error_msg[:500] + "..."\<close>\<close>
  "truncate_error msg =
     (if length msg > 500 then take 500 msg @ ''...'' else msg)"

definition export_model ::
  "export_world \<Rightarrow> string \<Rightarrow> string \<Rightarrow> string \<Rightarrow> string \<Rightarrow> int \<Rightarrow> ExportResult" where
  "export_model w model_name dev output_base target_runtime timeout_seconds =
     (let start_time = clock w 0;
          output_dir = path_join output_base model_name;
          succeeded = (\<lambda>duration msg.
            \<lparr>success = True, requested_name = model_name, resolved_name = model_name,
             device = dev, output_path = output_dir, duration_seconds = duration,
             error_msg = msg\<rparr>);
          failed = (\<lambda>duration msg.
            \<lparr>success = False, requested_name = model_name, resolved_name = model_name,
             device = dev, output_path = '''', duration_seconds = duration,
             error_msg = msg\<rparr>)
      in case makedirs w output_dir of
           Some e \<Rightarrow> failed (clock w 1 - start_time) e
         | None \<Rightarrow>
             (case run w (export_command w model_name dev output_base target_runtime)
                     timeout_seconds of
                TimeoutExpired e \<Rightarrow>
                  failed (clock w 1 - start_time) (''Timeout after '' @ str_int timeout_seconds @ ''s'')
              | FileNotFoundError e \<Rightarrow> failed (clock w 1 - start_time) e
              | OtherException e \<Rightarrow> failed (clock w 1 - start_time) e
              | Completed rc out err \<Rightarrow>
                  (let duration = clock w 1 - start_time in
                   if rc = 0 then
                     (case dir_nonempty w output_dir of
                        Raises e \<Rightarrow> failed (clock w 2 - start_time) e
                      | Returns populated \<Rightarrow>
                          if populated then succeeded duration ''''
                          else
                            (case probe_fallbacks w
                                    [path_join (getcwd w) ''build'',
                                     path_join (getcwd w) model_name,
                                     path_join (getcwd w) (model_name @ ''_export'')]
                                    output_dir of
                               Raises e \<Rightarrow> failed (clock w 2 - start_time) e
                             | Returns copied \<Rightarrow>
                                 if copied then succeeded duration ''''
                                 else succeeded duration ''Export succeeded but output location unclear''))
                   else
                     (let msg = (if strip err \<noteq> [] then strip err else strip out)
                      in failed duration (truncate_error msg)))))"

section \<open>The batch exporter's main (qaihub\_download\_models.py)\<close>

record args =
  arg_models :: string
  arg_device :: string
  arg_target_runtime :: string
  arg_output_base :: string
  arg_list_available :: bool
  arg_dry_run :: bool
  arg_timeout :: int

text \<open>
  \<open>args\<close> above is the namespace that \<open>parse_args\<close> returns.
  What one run of \<open>main\<close> meets after parsing: the outcome of the \<open>qai-hub list-devices\<close> call of
  \<open>validate_qaihub_configured\<close>, the outcome of the one of \<open>auto_select_device\<close>, what
  discovery finds, and the environment of the export of the \<open>i\<close>-th requested model
  (\<open>i\<close> counts from 1, as \<open>enumerate(requested_models, 1)\<close> does).
\<close>

record world =
  validate_listing :: proc_outcome
  select_listing :: proc_outcome
  discovered :: discovery
  export_worlds :: "nat \<Rightarrow> export_world"

text \<open>
  What a run leaves behind: the value \<open>main\<close> returns (the process exit code), the
  \<open>results\<close> list as far as it was built, and the model names that were handed to
  \<open>export_model\<close>, in order (each such call runs the export subprocess).
\<close>

record run_report =
  exit_code :: int
  results :: "ExportResult list"
  exported :: "string list"

definition requested_models :: "string \<Rightarrow> string list" where
  \<comment> \<open>\<open>[m.strip() for m in args.models.split(",") if m.strip()]\<close>\<close>
  "requested_models models =
     map strip (filter (\<lambda>m. strip m \<noteq> []) (split_on (CHR '','') models))"

definition select_device :: "world \<Rightarrow> args \<Rightarrow> string option" where
  \<comment> \<open>step 2 of \<open>main\<close>; \<open>None\<close> when \<open>main\<close> returns 1 there\<close>
  "select_device w a =
     (if arg_device a \<noteq> [] then Some (arg_device a)
      else (case auto_select_device (select_listing w) of
              (dev, reason) \<Rightarrow> if dev = [] then None else Some dev))"

definition not_found_result :: "string \<Rightarrow> string \<Rightarrow> ExportResult" where
  "not_found_result requested dev =
     \<lparr>success = False, requested_name = requested, resolved_name = requested,
      device = dev, output_path = '''', duration_seconds = 0,
      error_msg = ''Model not found in qai_hub_models''\<rparr>"

definition dry_run_result :: "args \<Rightarrow> string \<Rightarrow> string \<Rightarrow> string \<Rightarrow> ExportResult" where
  "dry_run_result a requested resolved dev =
     \<lparr>success = True, requested_name = requested, resolved_name = resolved,
      device = dev, output_path = arg_output_base a @ ''/'' @ resolved, duration_seconds = 0,
      error_msg = ''(dry-run)''\<rparr>"

definition process_request ::
  "world \<Rightarrow> args \<Rightarrow> string \<Rightarrow> string list \<Rightarrow> nat \<times> string \<Rightarrow> ExportResult \<times> string list" where
  \<comment> \<open>one turn of the loop of step 4: the result appended, and the models handed to
      \<open>export_model\<close> in this turn. \<open>if not resolved\<close> holds for \<open>None\<close> and for the empty string.\<close>
  "process_request w a dev available ir =
     (case ir of (i, requested) \<Rightarrow>
        (case resolve_model_name requested available of
           None \<Rightarrow> (not_found_result requested dev, [])
         | Some resolved \<Rightarrow>
             if resolved = [] then (not_found_result requested dev, [])
             else if arg_dry_run a then (dry_run_result a requested resolved dev, [])
             else
               ((export_model (export_worlds w i) resolved dev (arg_output_base a)
                   (arg_target_runtime a) (arg_timeout a))
                  \<lparr>requested_name := requested\<rparr>,
                [resolved])))"

text \<open>
  The first statement of \<open>main\<close> is \<open>args = parse_args()\<close>. What \<open>argparse\<close> makes of
  the process's command line is given by the environment: it returns the namespace, or
  it prints the help and raises \<open>SystemExit(0)\<close> (\<open>-h\<close>, \<open>--help\<close>), or it prints a usage
  error and raises \<open>SystemExit(2)\<close>. Nothing catches \<open>SystemExit\<close>, so its code is the
  exit code of the process.
\<close>

datatype command_line =
    Parsed args
  | HelpRequested
  | Rejected

definition parse_args :: "command_line \<Rightarrow> int + args" where
  \<comment> \<open>\<open>Inl code\<close>: \<open>SystemExit(code)\<close> was raised\<close>
  "parse_args cl =
     (case cl of
        Parsed a \<Rightarrow> Inr a
      | HelpRequested \<Rightarrow> Inl 0
      | Rejected \<Rightarrow> Inl 2)"

definition main :: "world \<Rightarrow> command_line \<Rightarrow> run_report" where
  "main w cl =
     (case parse_args cl of
        Inl code \<Rightarrow> \<lparr>exit_code = code, results = [], exported = []\<rparr>
      | Inr a \<Rightarrow>
     (if \<not> validate_qaihub_configured (validate_listing w)
      then \<lparr>exit_code = 1, results = [], exported = []\<rparr>
      else
        (case select_device w a of
           None \<Rightarrow> \<lparr>exit_code = 1, results = [], exported = []\<rparr>
         | Some dev \<Rightarrow>
             (let available = discover_available_models (discovered w) in
              if available = [] then \<lparr>exit_code = 1, results = [], exported = []\<rparr>
              else if arg_list_available a then \<lparr>exit_code = 0, results = [], exported = []\<rparr>
              else
                (let requested = requested_models (arg_models a);
                     turns = map (process_request w a dev available)
                               (zip [1 ..< Suc (length requested)] requested);
                     rs = map fst turns;
                     successes = length (filter success rs)
                 in \<lparr>exit_code = (if successes = 0 then 1 else 0),
                     results = rs,
                     exported = concat (map snd turns)\<rparr>)))))"

section \<open>The compile helper (qaihub\_compile.py)\<close>

datatype json =
    JStr string
  | JBool bool
  | JInt int
  | JList "json list"
  | JObj "(string \<times> json) list"

text \<open>
  How a command function ends: it prints one JSON object with \<open>_output\<close> and returns, or
  an exception leaves it (nothing in \<open>main\<close> catches it, so the process dies with a
  traceback and prints no JSON).
\<close>

datatype ending =
    Printed "(string \<times> json) list"
  | Uncaught string \<comment> \<open>an exception of the SDK or the OS, with \<open>str(e)\<close>\<close>
  | UncaughtAttributeError string \<comment> \<open>a read of an attribute the object does not have\<close>

record job_status =
  st_success :: bool
  st_running :: "bool option" \<comment> \<open>\<open>None\<close>: the status object has no \<open>running\<close> attribute\<close>
  st_message :: string

record device_info =
  dev_name :: string
  dev_os :: string

text \<open>
  The vendor SDK and the file system as the helper meets them. \<open>get_status k\<close> is what
  the \<open>k\<close>-th \<open>job.get_status()\<close> call of the run does; \<open>submit_compile_job\<close> gives
  the job's id; \<open>get_target_model\<close> gives the truth value of the target model.
\<close>

record hub =
  get_devices :: "string \<Rightarrow> device_info list outcome"
  path_exists :: "string \<Rightarrow> bool"
  submit_compile_job :: "string \<Rightarrow> device_info \<Rightarrow> string \<Rightarrow> string \<Rightarrow> string outcome"
  get_job :: "string \<Rightarrow> unit outcome"
  get_status :: "nat \<Rightarrow> job_status outcome"
  hub_makedirs :: "string \<Rightarrow> string option"
  get_target_model :: "bool outcome"
  download :: "string \<Rightarrow> string option"
  now :: int

record compile_args =
  c_model :: string
  c_device :: string
  c_options :: string
  c_wait :: bool
  c_out :: string

datatype poll_end =
    PollSuccess
  | PollFailed string
  | PollRaised string
  | PollNoRunning

fun poll :: "(nat \<Rightarrow> job_status outcome) \<Rightarrow> nat \<Rightarrow> nat \<Rightarrow> poll_end option" where
  \<comment> \<open>the \<open>while True\<close> loop of \<open>do_compile\<close>, from the \<open>k\<close>-th status call on, for at most
      \<open>fuel\<close> turns; \<open>None\<close> when the job is still running after them\<close>
  "poll gs 0 k = None"
| "poll gs (Suc fuel) k =
     (case gs k of
        Raises e \<Rightarrow> Some (PollRaised e)
      | Returns st \<Rightarrow>
          if st_success st then Some PollSuccess
          else (case st_running st of
                  None \<Rightarrow> Some PollNoRunning
                | Some running \<Rightarrow>
                    if \<not> running then Some (PollFailed (st_message st))
                    else poll gs fuel (Suc k)))"

definition compile_result :: "compile_args \<Rightarrow> string \<Rightarrow> bool \<Rightarrow> string \<Rightarrow> (string \<times> json) list" where
  \<comment> \<open>the \<open>result\<close> dictionary with its \<open>ok\<close> and \<open>status\<close> entries as given\<close>
  "compile_result a job_id ok status =
     [(''ok'', JBool ok),
      (''job_id'', JStr job_id),
      (''job_url'', JStr (''https://aihub.qualcomm.com/jobs/'' @ job_id)),
      (''status'', JStr status),
      (''device'', JStr (c_device a))]"

definition fetch_artifact :: "hub \<Rightarrow> compile_args \<Rightarrow> (string \<times> json) list" where
  \<comment> \<open>the \<open>try\<close> block after the wait: the entries it adds to \<open>result\<close>\<close>
  "fetch_artifact h a =
     (case get_target_model h of
        Raises e \<Rightarrow> [(''download_error'', JStr e)]
      | Returns target \<Rightarrow>
          if target
          then (let out_file = path_join (c_out a) ''model.bin'' in
                case download h out_file of
                  Some e \<Rightarrow> [(''download_error'', JStr e)]
                | None \<Rightarrow> [(''artifact_path'', JStr out_file)])
          else [])"

definition do_compile :: "hub \<Rightarrow> compile_args \<Rightarrow> nat \<Rightarrow> ending option" where
  "do_compile h a fuel =
     (case get_devices h (c_device a) of
        Raises e \<Rightarrow> Some (Uncaught e)
      | Returns devices \<Rightarrow>
          (case devices of
             [] \<Rightarrow> Some (Printed [(''ok'', JBool False),
                                   (''error'', JStr (''No device found: '' @ c_device a))])
           | dev # _ \<Rightarrow>
               if \<not> (prefix ''m'' (c_model a) \<and> length (c_model a) > 3) \<and> \<not> path_exists h (c_model a)
               then Some (Printed [(''ok'', JBool False),
                                   (''error'', JStr (''Model file not found: '' @ c_model a))])
               else
                 (case submit_compile_job h (c_model a) dev (''edgemesh-'' @ str_int (now h))
                         (c_options a) of
                    Raises e \<Rightarrow> Some (Printed [(''ok'', JBool False), (''error'', JStr e)])
                  | Returns job_id \<Rightarrow>
                      if \<not> c_wait a then Some (Printed (compile_result a job_id True ''submitted''))
                      else
                        (case poll (get_status h) fuel 0 of
                           None \<Rightarrow> None
                         | Some (PollRaised e) \<Rightarrow> Some (Uncaught e)
                         | Some PollNoRunning \<Rightarrow> Some (UncaughtAttributeError ''running'')
                         | Some (PollFailed message) \<Rightarrow>
                             Some (Printed (compile_result a job_id False (''failed: '' @ message)))
                         | Some PollSuccess \<Rightarrow>
                             if c_out a \<noteq> []
                             then (case hub_makedirs h (c_out a) of
                                     Some e \<Rightarrow> Some (Uncaught e)
                                   | None \<Rightarrow>
                                       Some (Printed (compile_result a job_id True ''success''
                                                        @ fetch_artifact h a)))
                             else Some (Printed (compile_result a job_id True ''success''))))))"

definition do_status :: "hub \<Rightarrow> string \<Rightarrow> ending" where
  \<comment> \<open>the second argument is \<open>args.job\<close>\<close>
  "do_status h job =
     (let failure = (\<lambda>e. Printed [(''job_id'', JStr job), (''status'', JStr ''error''),
                                  (''success'', JBool False), (''error'', JStr e)])
      in case get_job h job of
           Raises e \<Rightarrow> failure e
         | Returns _ \<Rightarrow>
             (case get_status h 0 of
                Raises e \<Rightarrow> failure e
              | Returns st \<Rightarrow>
                  Printed [(''job_id'', JStr job),
                           (''status'', JStr (st_message st)),
                           (''success'', JBool (st_success st)),
                           (''running'', JBool (case st_running st of None \<Rightarrow> False | Some r \<Rightarrow> r))]))"

definition do_list_devices :: "hub \<Rightarrow> string \<Rightarrow> ending" where
  \<comment> \<open>the second argument is \<open>args.name\<close>\<close>
  "do_list_devices h name =
     (case get_devices h name of
        Raises e \<Rightarrow> Printed [(''count'', JInt 0), (''devices'', JList []), (''error'', JStr e)]
      | Returns devices \<Rightarrow>
          (let result = map (\<lambda>d. JObj [(''name'', JStr (dev_name d)), (''os'', JStr (dev_os d))]) devices
           in Printed [(''count'', JInt (int (length result))), (''devices'', JList result)]))"

section \<open>Example inputs\<close>

definition two_elite_listing :: string where
  \<comment> \<open>two device rows; only the second one names Windows\<close>
  "two_elite_listing =
     ''Snapdragon X Elite QRD | Android 14'' @ [CHR 0x0A] @
     ''Snapdragon X Elite CRD | Windows 11'' @ [CHR 0x0A]"

definition steady_export :: export_world where
  \<comment> \<open>every call returns, the export exits 0 and leaves files; the clock advances\<close>
  "steady_export =
     \<lparr>clock = (\<lambda>k. real k),
      getcwd = ''/work'',
      makedirs = (\<lambda>d. None),
      run = (\<lambda>cmd t. Completed 0 '''' ''''),
      dir_nonempty = (\<lambda>d. Returns True),
      copytree = (\<lambda>src dst. None)\<rparr>"

definition timed_out_export :: export_world where
  \<comment> \<open>every subprocess exceeds its timeout\<close>
  "timed_out_export = steady_export\<lparr>run := (\<lambda>cmd t. TimeoutExpired ''timed out'')\<rparr>"

definition failing_export :: export_world where
  \<comment> \<open>every subprocess exits 1 with a short message on stderr\<close>
  "failing_export =
     steady_export\<lparr>run := (\<lambda>cmd t. Completed 1 ''see stderr'' (''boom'' @ [CHR 0x0A]))\<rparr>"

definition long_stderr_export :: export_world where
  \<comment> \<open>every subprocess exits 1 with 501 characters on stderr\<close>
  "long_stderr_export =
     steady_export\<lparr>run := (\<lambda>cmd t. Completed 1 '''' (replicate 501 (CHR ''x'')))\<rparr>"


definition demo_world :: "export_world \<Rightarrow> world" where
  \<comment> \<open>a configured \<open>qai-hub\<close>, a catalog of two models, and the same export environment
      for every request\<close>
  "demo_world ew =
     \<lparr>validate_listing = Completed 0 two_elite_listing '''',
      select_listing = Completed 0 two_elite_listing '''',
      discovered = Modules
        [\<lparr>modname = ''stable_diffusion_v1_5'', ispkg = True, probed = HasExport\<rparr>,
         \<lparr>modname = ''controlnet'', ispkg = True, probed = HasInit\<rparr>],
      export_worlds = (\<lambda>i. ew)\<rparr>"

definition unconfigured_world :: world where
  \<comment> \<open>\<open>qai-hub\<close> is not installed\<close>
  "unconfigured_world =
     (demo_world steady_export)\<lparr>validate_listing := FileNotFoundError ''qai-hub''\<rparr>"

definition demo_args :: args where
  "demo_args =
     \<lparr>arg_models = ''sd-v1.5,not_a_real_model'',
      arg_device = '''',
      arg_target_runtime = ''precompiled_qnn_onnx'',
      arg_output_base = ''artifacts/qaihub/models'',
      arg_list_available = False,
      arg_dry_run = False,
      arg_timeout = 1800\<rparr>"

definition unknown_args :: args where
  \<comment> \<open>only names that resolve to nothing\<close>
  "unknown_args = demo_args\<lparr>arg_models := ''not_a_real_model,whisper''\<rparr>"

definition listing_args :: args where
  "listing_args = demo_args\<lparr>arg_list_available := True\<rparr>"

definition dry_run_args :: args where
  "dry_run_args = demo_args\<lparr>arg_dry_run := True\<rparr>"

definition dry_listing_args :: args where
  "dry_listing_args = dry_run_args\<lparr>arg_list_available := True\<rparr>"

definition dropped_hub :: hub where
  \<comment> \<open>the service accepts the job; every later status call raises\<close>
  "dropped_hub =
     \<lparr>get_devices = (\<lambda>name. Returns [\<lparr>dev_name = name, dev_os = ''Android''\<rparr>]),
      path_exists = (\<lambda>p. True),
      submit_compile_job = (\<lambda>model dev name options. Returns ''jabc123''),
      get_job = (\<lambda>job. Returns ()),
      get_status = (\<lambda>k. Raises ''connection reset''),
      hub_makedirs = (\<lambda>d. None),
      get_target_model = Returns True,
      download = (\<lambda>p. None),
      now = 1700000000\<rparr>"

definition offline_hub :: hub where
  \<comment> \<open>the device query raises\<close>
  "offline_hub = dropped_hub\<lparr>get_devices := (\<lambda>name. Raises ''service unavailable'')\<rparr>"

definition waiting_args :: compile_args where
  "waiting_args =
     \<lparr>c_model = ''model.onnx'',
      c_device = ''Samsung Galaxy S24 (Family)'',
      c_options = '''',
      c_wait = True,
      c_out = ''''\<rparr>"

section \<open>Facts about strings\<close>

lemma substr_sublist: "substr a b \<longleftrightarrow> sublist a b"
  by (induction b) (auto simp: sublist_Cons_right)

lemma substr_append: "substr a (x @ a @ y)"
  by (simp add: substr_sublist)

lemma substr_set: "substr a b \<Longrightarrow> set a \<subseteq> set b"
  by (auto simp: substr_sublist sublist_def)

lemma lower_char_not_W: "lower_char c \<noteq> CHR ''W''"
proof
  assume "lower_char c = CHR ''W''"
  then have "of_char (lower_char c) = (87::nat)" by simp
  then show False
    by (auto simp: lower_char_def Let_def split: if_splits)
qed

lemma windows_never_in_lower: "\<not> substr ''Windows'' (lower line)"
proof
  assume "substr ''Windows'' (lower line)"
  from substr_set [OF this] have "CHR ''W'' \<in> set (lower line)" by simp
  moreover have "\<forall>c \<in> set (lower line). c \<noteq> CHR ''W''"
    by (auto simp: lower_def lower_char_not_W)
  ultimately show False by blast
qed

section \<open>Device selection\<close>

text \<open>
  The test of priority 1 (and of priority 3) looks for the capitalised word \<open>Windows\<close>
  in the lower-cased line, where no capital letter is left: no line passes it, so the
  reason of priority 1 is never returned.
\<close>

lemma find_no_line: "find (\<lambda>(device_name, line). False) devices = None"
  by (induction devices) auto

lemma auto_select_device_never_preferred:
  "snd (auto_select_device listing) \<noteq> ''Snapdragon X Elite + Windows (preferred)''"
  by (cases listing)
     (auto simp: auto_select_device_def windows_never_in_lower find_no_line Let_def
           split: list.splits option.splits)

text \<open>
  C1. A listing with a line that mentions both \<open>Snapdragon X Elite\<close> and \<open>Windows\<close>
  should give the device of such a line, with the reason of priority 1. On the listing
  \<open>two_elite_listing\<close> the second line is the fully specific one, and the selector
  returns the device of the first line, which names no Windows, with the reason of
  priority 2.
\<close>

theorem auto_select_device_misses_windows:
  "substr ''Snapdragon X Elite'' ''Snapdragon X Elite CRD | Windows 11''
   \<and> substr ''Windows'' ''Snapdragon X Elite CRD | Windows 11''
   \<and> \<not> substr ''Windows'' ''Snapdragon X Elite QRD | Android 14''
   \<and> parse_devices two_elite_listing =
       [(''Snapdragon X Elite QRD'', ''Snapdragon X Elite QRD | Android 14''),
        (''Snapdragon X Elite CRD'', ''Snapdragon X Elite CRD | Windows 11'')]
   \<and> auto_select_device (Completed 0 two_elite_listing '''') =
       (''Snapdragon X Elite QRD'', ''Snapdragon X Elite'')"
  by code_simp

section \<open>Model name resolution\<close>

lemma find_None_iff_all: "find P xs = None \<longleftrightarrow> (\<forall>x\<in>set xs. \<not> P x)"
  by (induction xs) auto

lemma find_Some_member: "find P xs = Some x \<Longrightarrow> x \<in> set xs"
  by (induction xs) (auto split: if_splits)

lemma resolve_exact: "normalize r \<in> set av \<Longrightarrow> resolve_model_name r av = Some (normalize r)"
  by (simp add: resolve_model_name_def)

lemma resolve_alias:
  assumes "normalize s \<notin> set av"
    and "map_of MODEL_ALIASES (alias_key s) = Some v"
    and "v \<in> set av"
  shows "resolve_model_name s av = Some v"
  using assms by (simp add: resolve_model_name_def alias_lookup_def)

lemma resolve_member: "resolve_model_name r av = Some m \<Longrightarrow> m \<in> set av"
  by (auto simp: resolve_model_name_def alias_lookup_def fuzzy_match_def Let_def
           split: if_splits option.splits dest: find_Some_member)

text \<open>
  C2 (as amended). A requested name that is in the catalog verbatim and is already in
  normalized form (no capital letter, hyphen or period: \<open>normalize\<close> leaves it as it is)
  resolves to itself, whatever the alias table says about that spelling.
\<close>

theorem resolve_exact_priority:
  assumes "r \<in> set av" and "normalize r = r"
  shows "resolve_model_name r av = Some r"
  using assms resolve_exact [of r av] by simp

text \<open>
  The witness: \<open>controlnet\<close> is in the catalog, and the alias table maps it to another
  catalog member.
\<close>

theorem resolve_exact_priority_witness:
  "''controlnet'' \<in> set [''controlnet'', ''controlnet_canny'']
   \<and> normalize ''controlnet'' = ''controlnet''
   \<and> map_of MODEL_ALIASES ''controlnet'' = Some ''controlnet_canny''
   \<and> resolve_model_name ''controlnet'' [''controlnet'', ''controlnet_canny''] = Some ''controlnet''"
proof -
  have n: "normalize ''controlnet'' = ''controlnet''" by code_simp
  have m: "''controlnet'' \<in> set [''controlnet'', ''controlnet_canny'']" by simp
  have a: "map_of MODEL_ALIASES ''controlnet'' = Some ''controlnet_canny''" by code_simp
  from resolve_exact_priority [OF m n] n m a show ?thesis by simp
qed

text \<open>
  C2 as stated fails for a catalog name that is not in normalized form: the name is
  lower-cased before the catalog is searched, and nothing matches afterwards.
\<close>

theorem resolve_verbatim_counterexample:
  "''ResNet50'' \<in> set [''ResNet50'']
   \<and> resolve_model_name ''ResNet50'' [''ResNet50''] \<noteq> Some ''ResNet50''"
  by code_simp

lemma alias_table_spellings:
  "\<forall>(k, v) \<in> set MODEL_ALIASES. \<forall>s \<in> set [k, hyphenated k, underscored k].
     normalize s = normalize k \<and> map_of MODEL_ALIASES (alias_key s) = Some v"
  by code_simp

text \<open>
  C3 (as amended). For a key of the alias table whose value is in the catalog, the key
  as written, its hyphenated spelling and its underscored spelling all resolve to the
  value, unless the normalized key is itself another catalog member (then the exact
  match of step 1 wins).
\<close>

theorem resolve_alias_key:
  assumes "map_of MODEL_ALIASES k = Some v" and "v \<in> set av"
    and "normalize k \<notin> set av \<or> normalize k = v"
    and "s = k \<or> s = hyphenated k \<or> s = underscored k"
  shows "resolve_model_name s av = Some v"
proof -
  have kv: "(k, v) \<in> set MODEL_ALIASES" using assms(1) by (rule map_of_SomeD)
  have s: "s \<in> set [k, hyphenated k, underscored k]" using assms(4) by auto
  from alias_table_spellings kv s
  have n: "normalize s = normalize k" and a: "map_of MODEL_ALIASES (alias_key s) = Some v"
    by blast+
  show ?thesis
  proof (cases "normalize k \<in> set av")
    case True
    with assms(3) have "normalize k = v" by simp
    with True n resolve_exact [of s av] show ?thesis by simp
  next
    case False
    with n a assms(2) show ?thesis by (simp add: resolve_alias)
  qed
qed

theorem resolve_alias_key_witness:
  "map_of MODEL_ALIASES ''sd-v1.5'' = Some ''stable_diffusion_v1_5''
   \<and> ''stable_diffusion_v1_5'' \<in> set [''controlnet'', ''stable_diffusion_v1_5'']
   \<and> normalize ''sd-v1.5'' \<notin> set [''controlnet'', ''stable_diffusion_v1_5'']
   \<and> underscored ''sd-v1.5'' = ''sd_v1.5''
   \<and> resolve_model_name ''sd_v1.5'' [''controlnet'', ''stable_diffusion_v1_5'']
       = Some ''stable_diffusion_v1_5''"
proof -
  have k: "map_of MODEL_ALIASES ''sd-v1.5'' = Some ''stable_diffusion_v1_5''" by code_simp
  have v: "''stable_diffusion_v1_5'' \<in> set [''controlnet'', ''stable_diffusion_v1_5'']" by simp
  have n: "normalize ''sd-v1.5'' \<notin> set [''controlnet'', ''stable_diffusion_v1_5'']" by code_simp
  have u: "underscored ''sd-v1.5'' = ''sd_v1.5''" by code_simp
  have s: "''sd_v1.5'' = ''sd-v1.5'' \<or> ''sd_v1.5'' = hyphenated ''sd-v1.5''
           \<or> ''sd_v1.5'' = underscored ''sd-v1.5''"
    using u by simp
  from resolve_alias_key [OF k v disjI1 [OF n] s] k v n u show ?thesis by simp
qed

text \<open>
  C3 as stated fails when the catalog holds the normalized key itself: \<open>controlnet\<close> is
  an alias of \<open>controlnet_canny\<close>, and a catalog with both gives \<open>controlnet\<close>.
\<close>

theorem resolve_alias_key_counterexample:
  "map_of MODEL_ALIASES ''controlnet'' = Some ''controlnet_canny''
   \<and> ''controlnet_canny'' \<in> set [''controlnet'', ''controlnet_canny'']
   \<and> resolve_model_name ''controlnet'' [''controlnet'', ''controlnet_canny'']
       \<noteq> Some ''controlnet_canny''"
  by code_simp

text \<open>
  C4. A requested name whose normalized form is not in the catalog, for which neither
  alias lookup (by the hyphenated key, by the normalized form) gives a catalog member,
  and whose normalized form neither contains a catalog entry nor is contained in one,
  resolves to \<open>None\<close>.
\<close>

theorem resolve_not_found:
  assumes "normalize r \<notin> set av"
    and "\<forall>v. map_of MODEL_ALIASES (alias_key r) = Some v \<longrightarrow> v \<notin> set av"
    and "\<forall>v. map_of MODEL_ALIASES (normalize r) = Some v \<longrightarrow> v \<notin> set av"
    and "\<forall>m \<in> set av. \<not> substr (normalize r) m \<and> \<not> substr m (normalize r)"
  shows "resolve_model_name r av = None"
proof -
  have a1: "alias_lookup (alias_key r) av = None"
    using assms(2) by (auto simp: alias_lookup_def split: option.splits)
  have a2: "alias_lookup (normalize r) av = None"
    using assms(3) by (auto simp: alias_lookup_def split: option.splits)
  have f: "fuzzy_match (normalize r) av = None"
    using assms(4) by (simp add: fuzzy_match_def find_None_iff_all)
  show ?thesis using assms(1) a1 a2 f by (simp add: resolve_model_name_def)
qed

theorem resolve_not_found_witness:
  "normalize ''Whisper-Tiny'' \<notin> set [''controlnet'', ''stable_diffusion_v1_5'']
   \<and> map_of MODEL_ALIASES (alias_key ''Whisper-Tiny'') = None
   \<and> map_of MODEL_ALIASES (normalize ''Whisper-Tiny'') = None
   \<and> \<not> substr (normalize ''Whisper-Tiny'') ''controlnet''
   \<and> \<not> substr ''controlnet'' (normalize ''Whisper-Tiny'')
   \<and> \<not> substr (normalize ''Whisper-Tiny'') ''stable_diffusion_v1_5''
   \<and> \<not> substr ''stable_diffusion_v1_5'' (normalize ''Whisper-Tiny'')
   \<and> resolve_model_name ''Whisper-Tiny'' [''controlnet'', ''stable_diffusion_v1_5''] = None"
proof -
  have n: "normalize ''Whisper-Tiny'' \<notin> set [''controlnet'', ''stable_diffusion_v1_5'']"
    by code_simp
  have a1: "map_of MODEL_ALIASES (alias_key ''Whisper-Tiny'') = None" by code_simp
  have a2: "map_of MODEL_ALIASES (normalize ''Whisper-Tiny'') = None" by code_simp
  have f1: "\<not> substr (normalize ''Whisper-Tiny'') ''controlnet''" by code_simp
  have f2: "\<not> substr ''controlnet'' (normalize ''Whisper-Tiny'')" by code_simp
  have f3: "\<not> substr (normalize ''Whisper-Tiny'') ''stable_diffusion_v1_5''" by code_simp
  have f4: "\<not> substr ''stable_diffusion_v1_5'' (normalize ''Whisper-Tiny'')" by code_simp
  have "resolve_model_name ''Whisper-Tiny'' [''controlnet'', ''stable_diffusion_v1_5''] = None"
    using n a1 a2 f1 f2 f3 f4 by (intro resolve_not_found) simp_all
  with n a1 a2 f1 f2 f3 f4 show ?thesis by blast
qed

section \<open>Export driver\<close>



lemma export_model_on_timeout:
  assumes "makedirs w (path_join output_base model_name) = None"
    and "run w (export_command w model_name dev output_base target_runtime) timeout_seconds
         = TimeoutExpired e"
  shows "export_model w model_name dev output_base target_runtime timeout_seconds =
     \<lparr>success = False, requested_name = model_name, resolved_name = model_name,
      device = dev, output_path = '''', duration_seconds = clock w 1 - clock w 0,
      error_msg = ''Timeout after '' @ str_int timeout_seconds @ ''s''\<rparr>"
  using assms by (simp add: export_model_def Let_def)

text \<open>
  C7. When the export subprocess exceeds the configured timeout (the output directory was
  made, and \<open>subprocess.run\<close> of the export command raises \<open>TimeoutExpired\<close>),
  \<open>export_model\<close> returns a failure whose error message is \<open>Timeout after <t>s\<close>, with
  \<open><t>\<close> the configured timeout in decimal; so the message mentions the timeout value.
\<close>

theorem export_model_timeout_message:
  assumes "makedirs w (path_join output_base model_name) = None"
    and "run w (export_command w model_name dev output_base target_runtime) timeout_seconds
         = TimeoutExpired e"
  shows "\<not> success (export_model w model_name dev output_base target_runtime timeout_seconds)
    \<and> error_msg (export_model w model_name dev output_base target_runtime timeout_seconds)
        = ''Timeout after '' @ str_int timeout_seconds @ ''s''
    \<and> substr (str_int timeout_seconds)
        (error_msg (export_model w model_name dev output_base target_runtime timeout_seconds))"
  using export_model_on_timeout [OF assms]
    substr_append [of "str_int timeout_seconds" "''Timeout after ''" "''s''"]
  by simp

theorem export_model_timeout_message_witness:
  "makedirs timed_out_export (path_join ''out'' ''controlnet'') = None
   \<and> run timed_out_export (export_command timed_out_export ''controlnet'' ''dev'' ''out'' ''rt'') 1800
       = TimeoutExpired ''timed out''
   \<and> \<not> success (export_model timed_out_export ''controlnet'' ''dev'' ''out'' ''rt'' 1800)
   \<and> error_msg (export_model timed_out_export ''controlnet'' ''dev'' ''out'' ''rt'' 1800)
       = ''Timeout after 1800s''"
proof -
  have h1: "makedirs timed_out_export (path_join ''out'' ''controlnet'') = None"
    by (simp add: timed_out_export_def steady_export_def)
  have h2: "run timed_out_export (export_command timed_out_export ''controlnet'' ''dev'' ''out'' ''rt'') 1800
       = TimeoutExpired ''timed out''"
    by (simp add: timed_out_export_def steady_export_def)
  have n: "str_int 1800 = ''1800''" by code_simp
  from export_model_timeout_message [OF h1 h2] h1 h2 n show ?thesis by simp
qed

text \<open>
  C8 (as amended). When the export subprocess exits non-zero, \<open>export_model\<close> returns a
  failure whose error message is the stripped stderr, or the stripped stdout when the
  stripped stderr is empty; a message longer than 500 characters is cut to its first 500
  characters followed by three dots, so it has at most 503 characters.
\<close>

theorem export_model_nonzero_exit:
  assumes "makedirs w (path_join output_base model_name) = None"
    and "run w (export_command w model_name dev output_base target_runtime) timeout_seconds
         = Completed rc out err"
    and "rc \<noteq> 0"
  shows "\<not> success (export_model w model_name dev output_base target_runtime timeout_seconds)
    \<and> error_msg (export_model w model_name dev output_base target_runtime timeout_seconds)
        = (let msg = (if strip err \<noteq> [] then strip err else strip out)
           in if length msg > 500 then take 500 msg @ ''...'' else msg)
    \<and> length (error_msg (export_model w model_name dev output_base target_runtime timeout_seconds))
        \<le> 503"
  using assms by (simp add: export_model_def truncate_error_def Let_def)

theorem export_model_nonzero_exit_witness:
  "makedirs failing_export (path_join ''out'' ''controlnet'') = None
   \<and> run failing_export (export_command failing_export ''controlnet'' ''dev'' ''out'' ''rt'') 1800
       = Completed 1 ''see stderr'' (''boom'' @ [CHR 0x0A])
   \<and> \<not> success (export_model failing_export ''controlnet'' ''dev'' ''out'' ''rt'' 1800)
   \<and> error_msg (export_model failing_export ''controlnet'' ''dev'' ''out'' ''rt'' 1800) = ''boom''"
proof -
  have h1: "makedirs failing_export (path_join ''out'' ''controlnet'') = None"
    by (simp add: failing_export_def steady_export_def)
  have h2: "run failing_export (export_command failing_export ''controlnet'' ''dev'' ''out'' ''rt'') 1800
       = Completed 1 ''see stderr'' (''boom'' @ [CHR 0x0A])"
    by (simp add: failing_export_def steady_export_def)
  have h3: "(1::int) \<noteq> 0" by simp
  have st: "strip (''boom'' @ [CHR 0x0A]) = ''boom''" by code_simp
  from export_model_nonzero_exit [OF h1 h2 h3] h1 h2 st show ?thesis by (simp add: Let_def)
qed

text \<open>
  C8 as stated fails: with 501 characters on stderr the error message is not the first
  500 characters of stderr, it is 503 characters long.
\<close>

theorem export_model_truncation_counterexample:
  "run long_stderr_export (export_command long_stderr_export ''controlnet'' ''dev'' ''out'' ''rt'') 1800
       = Completed 1 '''' (replicate 501 (CHR ''x''))
   \<and> \<not> success (export_model long_stderr_export ''controlnet'' ''dev'' ''out'' ''rt'' 1800)
   \<and> error_msg (export_model long_stderr_export ''controlnet'' ''dev'' ''out'' ''rt'' 1800)
       \<noteq> take 500 (replicate 501 (CHR ''x''))
   \<and> length (error_msg (export_model long_stderr_export ''controlnet'' ''dev'' ''out'' ''rt'' 1800))
       = 503"
  by code_simp

section \<open>The batch exporter's main\<close>

lemma process_request_unresolved:
  "resolve_model_name requested av = None \<Longrightarrow>
   process_request w a dev av (i, requested) = (not_found_result requested dev, [])"
  by (simp add: process_request_def)

lemma process_request_dry_run:
  assumes "arg_dry_run a" and "resolve_model_name requested av = Some m" and "m \<noteq> []"
  shows "process_request w a dev av (i, requested) = (dry_run_result a requested m dev, [])"
  using assms by (simp add: process_request_def)

lemma process_request_dry_run_exports_nothing:
  "arg_dry_run a \<Longrightarrow> snd (process_request w a dev av ir) = []"
  by (cases ir) (simp add: process_request_def split: option.splits)



lemma main_not_parsed:
  "main w HelpRequested = \<lparr>exit_code = 0, results = [], exported = []\<rparr>"
  "main w Rejected = \<lparr>exit_code = 2, results = [], exported = []\<rparr>"
  by (simp_all add: main_def parse_args_def)

lemma main_reaches_loop:
  assumes "validate_qaihub_configured (validate_listing w)"
    and "select_device w a = Some dev"
    and "discover_available_models (discovered w) \<noteq> []"
    and "\<not> arg_list_available a"
  shows "results (main w (Parsed a)) =
           map (\<lambda>ir. fst (process_request w a dev (discover_available_models (discovered w)) ir))
             (zip [1 ..< Suc (length (requested_models (arg_models a)))]
                  (requested_models (arg_models a)))"
    and "exported (main w (Parsed a)) =
           concat (map (\<lambda>ir. snd (process_request w a dev (discover_available_models (discovered w)) ir))
             (zip [1 ..< Suc (length (requested_models (arg_models a)))]
                  (requested_models (arg_models a))))"
    and "exit_code (main w (Parsed a)) =
           (if \<exists>r \<in> set (results (main w (Parsed a))). success r then 0 else 1)"
  using assms by (auto simp: main_def parse_args_def Let_def filter_empty_conv comp_def)

lemma main_lists:
  assumes "validate_qaihub_configured (validate_listing w)"
    and "select_device w a = Some dev"
    and "discover_available_models (discovered w) \<noteq> []"
    and "arg_list_available a"
  shows "main w (Parsed a) = \<lparr>exit_code = 0, results = [], exported = []\<rparr>"
  using assms by (simp add: main_def parse_args_def Let_def)

lemma main_stops_early:
  assumes "\<not> validate_qaihub_configured (validate_listing w)
           \<or> select_device w a = None
           \<or> discover_available_models (discovered w) = []"
  shows "main w (Parsed a) = \<lparr>exit_code = 1, results = [], exported = []\<rparr>"
  using assms by (auto simp: main_def parse_args_def Let_def split: option.splits)

lemma main_cases:
  obtains (early) "\<not> validate_qaihub_configured (validate_listing w)
           \<or> select_device w a = None
           \<or> discover_available_models (discovered w) = []"
  | (loop) dev where "validate_qaihub_configured (validate_listing w)"
      "select_device w a = Some dev" "discover_available_models (discovered w) \<noteq> []"
  by (cases "select_device w a") auto

text \<open>
  C5 (as amended). For a command line that \<open>argparse\<close> accepts, the exit code of the
  batch exporter is 0 if and only if some result is a success, or the run is in listing
  mode (\<open>--list-available\<close>) and passed setup; it is 0 or 1. A request for help exits 0
  and a rejected command line exits 2, both without any result. When every requested
  name resolves to nothing, every result is a failure, and the exit code is 1 unless the
  run is in listing mode and passed setup. A setup failure (tooling unconfigured, no
  device, empty catalog) exits 1 with no result and no export, in listing mode too.
\<close>

theorem main_exit_code:
  "(exit_code (main w (Parsed a)) = 0 \<longleftrightarrow>
      (\<exists>r \<in> set (results (main w (Parsed a))). success r)
      \<or> (arg_list_available a
          \<and> validate_qaihub_configured (validate_listing w)
          \<and> select_device w a \<noteq> None
          \<and> discover_available_models (discovered w) \<noteq> []))
    \<and> (exit_code (main w (Parsed a)) = 0 \<or> exit_code (main w (Parsed a)) = 1)
    \<and> exit_code (main w HelpRequested) = 0 \<and> results (main w HelpRequested) = []
    \<and> exit_code (main w Rejected) = 2 \<and> results (main w Rejected) = []
    \<and> ((\<forall>r \<in> set (requested_models (arg_models a)).
           resolve_model_name r (discover_available_models (discovered w)) = None)
        \<longrightarrow> (\<forall>r \<in> set (results (main w (Parsed a))). \<not> success r)
            \<and> exit_code (main w (Parsed a)) =
                (if arg_list_available a
                    \<and> validate_qaihub_configured (validate_listing w)
                    \<and> select_device w a \<noteq> None
                    \<and> discover_available_models (discovered w) \<noteq> []
                 then 0 else 1))
    \<and> (\<not> validate_qaihub_configured (validate_listing w)
          \<or> select_device w a = None
          \<or> discover_available_models (discovered w) = []
        \<longrightarrow> exit_code (main w (Parsed a)) = 1
            \<and> results (main w (Parsed a)) = []
            \<and> exported (main w (Parsed a)) = [])"
proof (cases rule: main_cases [of w a])
  case early
  from main_stops_early [OF early] early show ?thesis
    by (auto simp: main_not_parsed)
next
  case (loop dev)
  show ?thesis
  proof (cases "arg_list_available a")
    case True
    from main_lists [OF loop True] loop True show ?thesis
      by (simp add: main_not_parsed)
  next
    case False
    note m = main_reaches_loop [OF loop False]
    have unres: "\<forall>r \<in> set (results (main w (Parsed a))). \<not> success r"
      if "\<forall>r \<in> set (requested_models (arg_models a)).
             resolve_model_name r (discover_available_models (discovered w)) = None"
      using that unfolding m(1)
      by (auto simp: process_request_unresolved not_found_result_def dest!: set_zip_rightD)
    show ?thesis using m(3) loop False unres by (auto simp: main_not_parsed)
  qed
qed

text \<open>
  The witness: a run with one success exits 0, a run with unknown names only exits 1,
  a run without \<open>qai-hub\<close> exits 1 before any export, and a listing run exits 0.
\<close>

theorem main_exit_code_witness:
  "success (hd (results (main (demo_world steady_export) (Parsed demo_args))))
   \<and> exit_code (main (demo_world steady_export) (Parsed demo_args)) = 0
   \<and> \<not> arg_list_available unknown_args
   \<and> requested_models (arg_models unknown_args) = [''not_a_real_model'', ''whisper'']
   \<and> exit_code (main (demo_world steady_export) (Parsed unknown_args)) = 1
   \<and> \<not> validate_qaihub_configured (validate_listing unconfigured_world)
   \<and> exit_code (main unconfigured_world (Parsed listing_args)) = 1
   \<and> exported (main unconfigured_world (Parsed listing_args)) = []
   \<and> arg_list_available listing_args
   \<and> exit_code (main (demo_world steady_export) (Parsed listing_args)) = 0"
proof -
  let ?w = "demo_world steady_export"
  have s: "success (hd (results (main ?w (Parsed demo_args))))" by code_simp
  have m: "hd (results (main ?w (Parsed demo_args))) \<in> set (results (main ?w (Parsed demo_args)))"
    by code_simp
  from main_exit_code [of ?w demo_args] s m
  have e0: "exit_code (main ?w (Parsed demo_args)) = 0" by blast
  have nl2: "\<not> arg_list_available unknown_args" by code_simp
  have rq: "requested_models (arg_models unknown_args) = [''not_a_real_model'', ''whisper'']"
    by code_simp
  have u: "\<forall>r \<in> set (requested_models (arg_models unknown_args)).
             resolve_model_name r (discover_available_models (discovered ?w)) = None"
    by code_simp
  from main_exit_code [of ?w unknown_args] u nl2
  have e1: "exit_code (main ?w (Parsed unknown_args)) = 1" by simp
  have v: "\<not> validate_qaihub_configured (validate_listing unconfigured_world)" by code_simp
  from main_exit_code [of unconfigured_world listing_args] v
  have e2: "exit_code (main unconfigured_world (Parsed listing_args)) = 1"
    and e3: "exported (main unconfigured_world (Parsed listing_args)) = []" by blast+
  have l: "arg_list_available listing_args" by code_simp
  have ok: "validate_qaihub_configured (validate_listing ?w)"
    "select_device ?w listing_args \<noteq> None"
    "discover_available_models (discovered ?w) \<noteq> []" by code_simp+
  from main_exit_code [of ?w listing_args] l ok
  have e4: "exit_code (main ?w (Parsed listing_args)) = 0" by blast
  from s e0 nl2 rq e1 v e2 e3 l e4 show ?thesis by blast
qed

text \<open>
  C5 as stated fails in listing mode and on a request for help: the run exits 0 and no
  model produced a result.
\<close>

theorem main_listing_counterexample:
  "arg_list_available listing_args
   \<and> exit_code (main (demo_world steady_export) (Parsed listing_args)) = 0
   \<and> results (main (demo_world steady_export) (Parsed listing_args)) = []
   \<and> exit_code (main (demo_world steady_export) HelpRequested) = 0
   \<and> results (main (demo_world steady_export) HelpRequested) = []"
  by code_simp




text \<open>
  C10 (as amended). In dry-run mode \<open>export_model\<close> is never called. When the run
  passes setup (tooling configured, a device given or selected) and is not in listing
  mode, every requested name that resolves to a catalog member (a non-empty name:
  \<open>if not resolved\<close> treats the empty string as not found, and a module name is never
  empty) yields the result with \<open>success\<close> true, the output path
  \<open><output-base>/<resolved-name>\<close> and duration 0. When the run passes setup and at
  least one requested name resolves so, the exit code is 0.
\<close>

theorem main_dry_run:
  assumes dry: "arg_dry_run a"
  shows "exported (main w (Parsed a)) = []
    \<and> (validate_qaihub_configured (validate_listing w)
        \<and> select_device w a = Some dev
        \<and> \<not> arg_list_available a
        \<longrightarrow> (\<forall>i < length (requested_models (arg_models a)). \<forall>m.
              resolve_model_name (requested_models (arg_models a) ! i)
                (discover_available_models (discovered w)) = Some m \<and> m \<noteq> []
              \<longrightarrow> i < length (results (main w (Parsed a)))
                  \<and> results (main w (Parsed a)) ! i =
                      \<lparr>success = True,
                       requested_name = requested_models (arg_models a) ! i,
                       resolved_name = m,
                       device = dev,
                       output_path = arg_output_base a @ ''/'' @ m,
                       duration_seconds = 0,
                       error_msg = ''(dry-run)''\<rparr>))
    \<and> (validate_qaihub_configured (validate_listing w)
        \<and> select_device w a \<noteq> None
        \<and> (\<exists>r \<in> set (requested_models (arg_models a)). \<exists>m.
             resolve_model_name r (discover_available_models (discovered w)) = Some m \<and> m \<noteq> [])
        \<longrightarrow> exit_code (main w (Parsed a)) = 0)"
proof -
  let ?req = "requested_models (arg_models a)"
  let ?av = "discover_available_models (discovered w)"
  let ?run = "main w (Parsed a)"
  have no_exports: "exported ?run = []"
  proof (cases rule: main_cases [of w a])
    case early
    from main_stops_early [OF early] show ?thesis by simp
  next
    case (loop d)
    show ?thesis
    proof (cases "arg_list_available a")
      case True
      from main_lists [OF loop True] show ?thesis by simp
    next
      case False
      show ?thesis
        unfolding main_reaches_loop(2) [OF loop False]
        by (simp add: process_request_dry_run_exports_nothing [OF dry])
    qed
  qed
  have each: "i < length (results ?run) \<and> results ?run ! i = dry_run_result a (?req ! i) m d"
    if v: "validate_qaihub_configured (validate_listing w)" and d: "select_device w a = Some d"
      and nl: "\<not> arg_list_available a"
      and i: "i < length ?req" and m: "resolve_model_name (?req ! i) ?av = Some m" "m \<noteq> []"
    for i m d
  proof -
    from resolve_member [OF m(1)] have ne: "?av \<noteq> []" by auto
    show ?thesis
      unfolding main_reaches_loop(1) [OF v d ne nl] using i
      by (simp add: process_request_dry_run [OF dry m] del: upt_Suc)
  qed
  have code: "exit_code ?run = 0"
    if v: "validate_qaihub_configured (validate_listing w)" and d: "select_device w a \<noteq> None"
      and ex: "\<exists>r \<in> set ?req. \<exists>m. resolve_model_name r ?av = Some m \<and> m \<noteq> []"
  proof -
    from d obtain d' where d': "select_device w a = Some d'" by auto
    from ex obtain r m
      where r: "r \<in> set ?req" and m: "resolve_model_name r ?av = Some m" "m \<noteq> []"
      by blast
    from resolve_member [OF m(1)] have ne: "?av \<noteq> []" by auto
    show ?thesis
    proof (cases "arg_list_available a")
      case True
      from main_lists [OF v d' ne True] show ?thesis by simp
    next
      case False
      from r obtain i where i: "i < length ?req" "?req ! i = r" by (auto simp: in_set_conv_nth)
      from each [OF v d' False i(1), of m] i m have "i < length (results ?run)"
        and "success (results ?run ! i)" by (simp_all add: dry_run_result_def)
      then have "\<exists>x \<in> set (results ?run). success x" using nth_mem by blast
      with main_reaches_loop(3) [OF v d' ne False] show ?thesis by simp
    qed
  qed
  show ?thesis
  proof (intro conjI allI impI)
    show "exported ?run = []" by (rule no_exports)
  next
    fix i m
    assume "validate_qaihub_configured (validate_listing w)
        \<and> select_device w a = Some dev \<and> \<not> arg_list_available a"
      and "i < length ?req" and "resolve_model_name (?req ! i) ?av = Some m \<and> m \<noteq> []"
    with each [of dev i m]
    show "i < length (results ?run)"
      and "results ?run ! i =
                  \<lparr>success = True,
                   requested_name = ?req ! i,
                   resolved_name = m,
                   device = dev,
                   output_path = arg_output_base a @ ''/'' @ m,
                   duration_seconds = 0,
                   error_msg = ''(dry-run)''\<rparr>"
      by (simp_all add: dry_run_result_def)
  next
    assume "validate_qaihub_configured (validate_listing w)
        \<and> select_device w a \<noteq> None
        \<and> (\<exists>r \<in> set ?req. \<exists>m. resolve_model_name r ?av = Some m \<and> m \<noteq> [])"
    then show "exit_code ?run = 0" using code by blast
  qed
qed

text \<open>
  The witness: a dry run in a world where every export subprocess would time out.
\<close>

theorem main_dry_run_witness:
  "validate_qaihub_configured (validate_listing (demo_world timed_out_export))
   \<and> select_device (demo_world timed_out_export) dry_run_args = Some ''Snapdragon X Elite QRD''
   \<and> \<not> arg_list_available dry_run_args
   \<and> arg_dry_run dry_run_args
   \<and> requested_models (arg_models dry_run_args) = [''sd-v1.5'', ''not_a_real_model'']
   \<and> resolve_model_name ''sd-v1.5''
        (discover_available_models (discovered (demo_world timed_out_export)))
       = Some ''stable_diffusion_v1_5''
   \<and> exported (main (demo_world timed_out_export) (Parsed dry_run_args)) = []
   \<and> results (main (demo_world timed_out_export) (Parsed dry_run_args)) ! 0 =
       \<lparr>success = True, requested_name = ''sd-v1.5'', resolved_name = ''stable_diffusion_v1_5'',
        device = ''Snapdragon X Elite QRD'',
        output_path = ''artifacts/qaihub/models/stable_diffusion_v1_5'',
        duration_seconds = 0, error_msg = ''(dry-run)''\<rparr>
   \<and> exit_code (main (demo_world timed_out_export) (Parsed dry_run_args)) = 0"
proof -
  let ?w = "demo_world timed_out_export"
  let ?av = "discover_available_models (discovered ?w)"
  let ?run = "main ?w (Parsed dry_run_args)"
  have v: "validate_qaihub_configured (validate_listing ?w)" by code_simp
  have d: "select_device ?w dry_run_args = Some ''Snapdragon X Elite QRD''" by code_simp
  have nl: "\<not> arg_list_available dry_run_args" by code_simp
  have dry: "arg_dry_run dry_run_args" by code_simp
  have rq: "requested_models (arg_models dry_run_args) = [''sd-v1.5'', ''not_a_real_model'']"
    by code_simp
  have rs: "resolve_model_name ''sd-v1.5'' ?av = Some ''stable_diffusion_v1_5''" by code_simp
  have ob: "arg_output_base dry_run_args = ''artifacts/qaihub/models''" by code_simp
  note t = main_dry_run [OF dry, of ?w "''Snapdragon X Elite QRD''"]
  from t have e: "exported ?run = []" by blast
  from t v d nl have each: "\<forall>i < length (requested_models (arg_models dry_run_args)). \<forall>m.
          resolve_model_name (requested_models (arg_models dry_run_args) ! i) ?av = Some m \<and> m \<noteq> []
          \<longrightarrow> i < length (results ?run)
              \<and> results ?run ! i =
                  \<lparr>success = True,
                   requested_name = requested_models (arg_models dry_run_args) ! i,
                   resolved_name = m,
                   device = ''Snapdragon X Elite QRD'',
                   output_path = arg_output_base dry_run_args @ ''/'' @ m,
                   duration_seconds = 0,
                   error_msg = ''(dry-run)''\<rparr>" by blast
  from each [rule_format, of 0 "''stable_diffusion_v1_5''"] rq rs ob
  have r0: "results ?run ! 0 =
       \<lparr>success = True, requested_name = ''sd-v1.5'', resolved_name = ''stable_diffusion_v1_5'',
        device = ''Snapdragon X Elite QRD'',
        output_path = ''artifacts/qaihub/models/stable_diffusion_v1_5'',
        duration_seconds = 0, error_msg = ''(dry-run)''\<rparr>" by simp
  have ex: "\<exists>r \<in> set (requested_models (arg_models dry_run_args)). \<exists>m.
           resolve_model_name r ?av = Some m \<and> m \<noteq> []"
    using rq rs by simp
  from d have dn: "select_device ?w dry_run_args \<noteq> None" by simp
  from t v dn ex have x: "exit_code ?run = 0" by blast
  from v d nl dry rq rs e r0 x show ?thesis by blast
qed

text \<open>
  C10 as stated fails for a dry run that does not pass setup or is in listing mode:
  without \<open>qai-hub\<close> a dry run that asks for a resolvable model exits 1 with no result,
  and a dry run with \<open>--list-available\<close> yields no result.
\<close>

theorem main_dry_run_counterexample:
  "arg_dry_run dry_run_args
   \<and> requested_models (arg_models dry_run_args) = [''sd-v1.5'', ''not_a_real_model'']
   \<and> resolve_model_name ''sd-v1.5'' (discover_available_models (discovered unconfigured_world))
       = Some ''stable_diffusion_v1_5''
   \<and> results (main unconfigured_world (Parsed dry_run_args)) = []
   \<and> exit_code (main unconfigured_world (Parsed dry_run_args)) = 1
   \<and> arg_dry_run dry_listing_args
   \<and> requested_models (arg_models dry_listing_args) = [''sd-v1.5'', ''not_a_real_model'']
   \<and> results (main (demo_world steady_export) (Parsed dry_listing_args)) = []"
  by code_simp

section \<open>The compile helper\<close>

text \<open>
  The status, download and listing commands wrap their SDK calls in \<open>try\<close>; so does
  \<open>do_compile\<close> for the submission and the artifact download. Its device query and the
  status calls of its wait loop are outside every \<open>try\<close>.
\<close>

lemma do_compile_device_query_escapes:
  "get_devices h (c_device a) = Raises e \<Longrightarrow> do_compile h a fuel = Some (Uncaught e)"
  by (simp add: do_compile_def)

lemma do_status_always_prints: "\<exists>obj. do_status h job = Printed obj"
  by (simp add: do_status_def Let_def split: outcome.splits)

lemma do_list_devices_always_prints: "\<exists>obj. do_list_devices h name = Printed obj"
  by (simp add: do_list_devices_def Let_def split: outcome.splits)

text \<open>
  C9. Every exception of an SDK call should end as a JSON failure result, on every
  command path, the wait loop of the compile command included. With a service whose
  status call raises, \<open>do_status\<close> prints the failure object, and \<open>do_compile\<close> with
  \<open>--wait\<close> lets the same exception escape from its first poll; with a service whose
  device query raises, \<open>do_list_devices\<close> prints the failure object and \<open>do_compile\<close>
  lets the exception escape.
\<close>

theorem do_compile_lets_exceptions_escape:
  "do_compile dropped_hub waiting_args 1 = Some (Uncaught ''connection reset'')
   \<and> do_status dropped_hub ''jabc123'' =
       Printed [(''job_id'', JStr ''jabc123''), (''status'', JStr ''error''),
                (''success'', JBool False), (''error'', JStr ''connection reset'')]
   \<and> do_compile offline_hub waiting_args 1 = Some (Uncaught ''service unavailable'')
   \<and> do_list_devices offline_hub (c_device waiting_args) =
       Printed [(''count'', JInt 0), (''devices'', JList []),
                (''error'', JStr ''service unavailable'')]"
  by code_simp

end
